theory Spec2Isabelle
  imports Main
begin

section \<open>Values held by the Dapp component\<close>

text \<open>
  The component \<open>Dapp\<close> keeps three refs (\<open>token\<close>, \<open>pollDataInterval\<close>,
  \<open>myAddress\<close>) and five \<open>useState\<close> cells. A cell starts as \<open>undefined\<close>
  (\<open>useState()\<close> without argument), is reset to \<open>null\<close> and otherwise holds a value;
  the three cases are kept apart, as JavaScript keeps them apart.
\<close>

type_synonym address = string

datatype 'a js = Undefined | Null | Val 'a

text \<open>A cell is unset when it is \<open>undefined\<close> or \<open>null\<close>: what the render tests with \<open>!x\<close>.\<close>

definition unset :: "'a js \<Rightarrow> bool" where
  "unset v = (case v of Undefined \<Rightarrow> True | Null \<Rightarrow> True | Val _ \<Rightarrow> False)"

text \<open>An error object: its optional numeric \<open>code\<close> and its \<open>message\<close>.\<close>

record js_error =
  code :: "int option"
  message :: string

text \<open>The settled result of a promise the component awaits.\<close>

datatype 'a settled = Fulfilled 'a | Rejected js_error

record tx =
  hash :: string

record receipt =
  status :: int

record token_data =
  name :: string
  symbol :: string

datatype contract = Contract

datatype event = AccountsChanged | NetworkChanged

datatype console_line = ConsoleLog string | ConsoleError js_error

text \<open>
  The state: the refs, the state cells, and the part of the browser the component acts
  on: the interval timers that are alive (\<open>setInterval\<close> hands out fresh ids,
  \<open>clearInterval\<close> removes one), the listeners registered with \<open>window.ethereum.on\<close>,
  and the console.
\<close>

record dapp =
  token :: "contract option"
  pollDataInterval :: "nat option"
  myAddress :: "address option"
  tokenData :: "token_data js"
  balance :: "nat js"
  txBeingSent :: "string js"
  transactionError :: "js_error js"
  networkError :: "string js"
  timers :: "nat list"
  nextTimer :: nat
  listeners :: "event list"
  console :: "console_line list"

definition HARDHAT_NETWORK_ID :: string where
  "HARDHAT_NETWORK_ID = ''31337''"

definition ERROR_CODE_TX_REJECTED_BY_USER :: int where
  "ERROR_CODE_TX_REJECTED_BY_USER = 4001"

text \<open>The component as first rendered: every ref and every cell is \<open>undefined\<close>.\<close>

definition Dapp :: dapp where
  "Dapp = \<lparr> token = None, pollDataInterval = None, myAddress = None,
      tokenData = Undefined, balance = Undefined, txBeingSent = Undefined,
      transactionError = Undefined, networkError = Undefined,
      timers = [], nextTimer = 1, listeners = [], console = [] \<rparr>"

text \<open>\<open>new Error(m)\<close>, and the \<open>TypeError\<close> of a property read on \<open>undefined\<close>: neither has a code.\<close>

definition Error :: "string \<Rightarrow> js_error" where
  "Error m = \<lparr> code = None, message = m \<rparr>"

definition TypeError :: js_error where
  "TypeError = \<lparr> code = None, message = ''Cannot read properties of undefined'' \<rparr>"

section \<open>Timers\<close>

definition setInterval :: "dapp \<Rightarrow> nat \<times> dapp" where
  "setInterval s =
     (nextTimer s, s\<lparr> timers := timers s @ [nextTimer s], nextTimer := Suc (nextTimer s) \<rparr>)"

text \<open>\<open>clearInterval(undefined)\<close> does nothing.\<close>

definition clearInterval :: "nat option \<Rightarrow> dapp \<Rightarrow> dapp" where
  "clearInterval t s =
     (case t of None \<Rightarrow> s | Some i \<Rightarrow> s\<lparr> timers := removeAll i (timers s) \<rparr>)"

section \<open>The functions of the component\<close>

text \<open>
  An asynchronous function is modelled at its settlement: it is given the settled
  results of the requests it awaits and returns the state it leaves, with the error
  its promise rejects with, if any. The calls the source starts without awaiting them
  (\<open>getTokenData\<close> and \<open>updateBalance\<close> in \<open>initialize\<close> and in the timer) write
  different cells, so the order in which they settle does not show in the state.
\<close>

text \<open>
  \<open>updateBalance\<close>: \<open>token.current.balanceOf\<close> throws when the ref is still
  \<open>undefined\<close>; a rejected read leaves before \<open>console.log\<close> and \<open>setBalance\<close>.
\<close>

definition updateBalance :: "nat settled \<Rightarrow> dapp \<Rightarrow> js_error option \<times> dapp" where
  "updateBalance r s =
     (case token s of
        None \<Rightarrow> (Some TypeError, s)
      | Some c \<Rightarrow>
          (case r of
             Rejected e \<Rightarrow> (Some e, s)
           | Fulfilled b \<Rightarrow>
               (None, s\<lparr> console := console s @ [ConsoleLog ''bal''], balance := Val b \<rparr>)))"

definition startPollingData :: "nat settled \<Rightarrow> dapp \<Rightarrow> dapp" where
  "startPollingData r s =
     (case setInterval s of
        (t, s1) \<Rightarrow> snd (updateBalance r (s1\<lparr> pollDataInterval := Some t \<rparr>)))"

definition stopPollingData :: "dapp \<Rightarrow> dapp" where
  "stopPollingData s = (clearInterval (pollDataInterval s) s)\<lparr> pollDataInterval := None \<rparr>"

text \<open>
  The callback of the interval, \<open>() => updateBalance()\<close>, drops the promise: a
  rejection is handled by nobody. A timer fires only while it is alive.
\<close>

definition pollTick :: "nat settled \<Rightarrow> dapp \<Rightarrow> dapp" where
  "pollTick r s = snd (updateBalance r s)"

definition intervalFires :: "nat \<Rightarrow> nat settled \<Rightarrow> dapp \<Rightarrow> dapp" where
  "intervalFires t r s = (if t \<in> set (timers s) then pollTick r s else s)"

definition dismissTransactionError :: "dapp \<Rightarrow> dapp" where
  "dismissTransactionError s = s\<lparr> transactionError := Null \<rparr>"

definition dismissNetworkError :: "dapp \<Rightarrow> dapp" where
  "dismissNetworkError s = s\<lparr> networkError := Null \<rparr>"

definition resetState :: "dapp \<Rightarrow> dapp" where
  "resetState s = s\<lparr> tokenData := Null, balance := Null, txBeingSent := Null,
     transactionError := Null, networkError := Null \<rparr>"

subsection \<open>transferTokens\<close>

text \<open>The replies of the contract to one transfer: to \<open>transfer\<close>, to \<open>tx.wait\<close> and to the read of the balance.\<close>

record transfer_replies =
  r_transfer :: "tx settled"
  r_wait :: "receipt settled"
  r_refresh :: "nat settled"

text \<open>
  The \<open>try\<close> block: it ends normally (\<open>None\<close>) or throws. The recipient and the
  amount go to the contract only; the state does not keep them.
\<close>

definition transferTokens_try ::
    "address \<Rightarrow> nat \<Rightarrow> transfer_replies \<Rightarrow> dapp \<Rightarrow> js_error option \<times> dapp" where
  "transferTokens_try to amount rp s =
     (let s0 = dismissTransactionError s in
      case token s0 of
        None \<Rightarrow> (Some TypeError, s0)
      | Some c \<Rightarrow>
          (case r_transfer rp of
             Rejected e \<Rightarrow> (Some e, s0)
           | Fulfilled t \<Rightarrow>
               (let s1 = s0\<lparr> txBeingSent := Val (hash t) \<rparr> in
                case r_wait rp of
                  Rejected e \<Rightarrow> (Some e, s1)
                | Fulfilled rc \<Rightarrow>
                    if status rc = 0 then (Some (Error ''Transaction failed''), s1)
                    else updateBalance (r_refresh rp) s1)))"

text \<open>The \<open>catch\<close> block: a rejection by the user returns at once, any other error is logged and stored.\<close>

definition transferTokens_catch :: "js_error \<Rightarrow> dapp \<Rightarrow> dapp" where
  "transferTokens_catch e s =
     (if code e = Some ERROR_CODE_TX_REJECTED_BY_USER then s
      else s\<lparr> console := console s @ [ConsoleError e], transactionError := Val e \<rparr>)"

text \<open>The \<open>finally\<close> block runs on every way out, the \<open>return\<close> of the \<open>catch\<close> block included.\<close>

definition transferTokens_finally :: "dapp \<Rightarrow> dapp" where
  "transferTokens_finally s = s\<lparr> txBeingSent := Null \<rparr>"

definition transferTokens :: "address \<Rightarrow> nat \<Rightarrow> transfer_replies \<Rightarrow> dapp \<Rightarrow> dapp" where
  "transferTokens to amount rp s =
     (case transferTokens_try to amount rp s of
        (None, s1) \<Rightarrow> transferTokens_finally s1
      | (Some e, s1) \<Rightarrow> transferTokens_finally (transferTokens_catch e s1))"

subsection \<open>Connecting\<close>

text \<open>
  The wallet \<open>window.ethereum\<close> as it answers during one call: the result of
  \<open>enable()\<close> and the property \<open>networkVersion\<close>. The replies of the contract to
  the reads of one \<open>initialize\<close>.
\<close>

record ethereum =
  enable :: "address list settled"
  networkVersion :: string

record chain_replies =
  r_name :: "string settled"
  r_symbol :: "string settled"
  r_balanceOf :: "nat settled"

text \<open>The pattern \<open>[x]\<close> binds the first element, or \<open>undefined\<close> on an empty array.\<close>

definition first :: "'a list \<Rightarrow> 'a option" where
  "first xs = (case xs of [] \<Rightarrow> None | x # _ \<Rightarrow> Some x)"

definition ethereum_on :: "event \<Rightarrow> dapp \<Rightarrow> dapp" where
  "ethereum_on ev s = s\<lparr> listeners := listeners s @ [ev] \<rparr>"

definition initializeEthers :: "dapp \<Rightarrow> dapp" where
  "initializeEthers s = s\<lparr> token := Some Contract \<rparr>"

text \<open>\<open>getTokenData\<close> is never awaited: a rejected read ends it and nobody sees the error.\<close>

definition getTokenData :: "string settled \<Rightarrow> string settled \<Rightarrow> dapp \<Rightarrow> dapp" where
  "getTokenData rn rs s =
     (case token s of
        None \<Rightarrow> s
      | Some c \<Rightarrow>
          (case rn of
             Rejected e \<Rightarrow> s
           | Fulfilled n \<Rightarrow>
               (case rs of
                  Rejected e \<Rightarrow> s
                | Fulfilled sy \<Rightarrow> s\<lparr> tokenData := Val \<lparr> name = n, symbol = sy \<rparr> \<rparr>)))"

definition initialize :: "address option \<Rightarrow> chain_replies \<Rightarrow> dapp \<Rightarrow> dapp" where
  "initialize userAddress rp s =
     startPollingData (r_balanceOf rp)
       (getTokenData (r_name rp) (r_symbol rp)
          (initializeEthers (s\<lparr> myAddress := userAddress \<rparr>)))"

definition checkNetwork :: "ethereum \<Rightarrow> dapp \<Rightarrow> bool \<times> dapp" where
  "checkNetwork w s =
     (if networkVersion w = HARDHAT_NETWORK_ID then (True, s)
      else (False, s\<lparr> networkError := Val ''Please connect Metamask to Localhost:8545'' \<rparr>))"

text \<open>The listener of \<open>accountsChanged\<close>, and the listener of \<open>networkChanged\<close> with the id \<open>e\<close> it logs.\<close>

definition accountsChanged_handler :: "address list \<Rightarrow> chain_replies \<Rightarrow> dapp \<Rightarrow> dapp" where
  "accountsChanged_handler accounts rp s =
     (let s1 = stopPollingData s in
      case first accounts of
        None \<Rightarrow> resetState s1
      | Some newAddress \<Rightarrow> initialize (Some newAddress) rp s1)"

definition networkChanged_handler :: "string \<Rightarrow> dapp \<Rightarrow> dapp" where
  "networkChanged_handler e s =
     resetState (stopPollingData (s\<lparr> console := console s @ [ConsoleLog e] \<rparr>))"

text \<open>
  \<open>connectWallet\<close>: a rejected \<open>enable()\<close> rejects the call before anything is done; on
  the wrong network \<open>checkNetwork\<close> has set the message and the call returns; otherwise
  the component is initialised and both listeners are registered.
\<close>

definition connectWallet :: "ethereum \<Rightarrow> chain_replies \<Rightarrow> dapp \<Rightarrow> dapp" where
  "connectWallet w rp s =
     (case enable w of
        Rejected e \<Rightarrow> s
      | Fulfilled accounts \<Rightarrow>
          (case checkNetwork w s of
             (ok, s1) \<Rightarrow>
               if \<not> ok then s1
               else ethereum_on NetworkChanged
                      (ethereum_on AccountsChanged (initialize (first accounts) rp s1))))"

text \<open>
  The wallet emits an event: every listener registered for it runs, in the order of
  registration. All listeners of one event are the same closure over the refs and the
  setters.
\<close>

definition listenersFor :: "event \<Rightarrow> dapp \<Rightarrow> event list" where
  "listenersFor ev s = filter (\<lambda>l. l = ev) (listeners s)"

definition emit_accountsChanged :: "address list \<Rightarrow> chain_replies \<Rightarrow> dapp \<Rightarrow> dapp" where
  "emit_accountsChanged accounts rp s =
     foldl (\<lambda>s' l. accountsChanged_handler accounts rp s') s (listenersFor AccountsChanged s)"

definition emit_networkChanged :: "string \<Rightarrow> dapp \<Rightarrow> dapp" where
  "emit_networkChanged e s =
     foldl (\<lambda>s' l. networkChanged_handler e s') s (listenersFor NetworkChanged s)"

text \<open>The cleanup of the effect, run when the component unmounts.\<close>

definition unmount :: "dapp \<Rightarrow> dapp" where
  "unmount s = stopPollingData s"

subsection \<open>Rendering\<close>

datatype view = NoWalletDetected | ConnectWallet | Loading | TokenPage

text \<open>
  Which screen the component returns; \<open>wallet\<close> says whether \<open>window.ethereum\<close> is
  there. An address is falsy when it is \<open>undefined\<close> or the empty string.
\<close>

definition render :: "bool \<Rightarrow> dapp \<Rightarrow> view" where
  "render wallet s =
     (if \<not> wallet then NoWalletDetected
      else if myAddress s = None \<or> myAddress s = Some [] then ConnectWallet
      else if unset (tokenData s) \<or> unset (balance s) then Loading
      else TokenPage)"

subsection \<open>Sequences of operations\<close>

text \<open>A run of starts and stops of the poller, each start with the reply to its first read.\<close>

datatype poller_op = Start "nat settled" | Stop

fun poller_step :: "dapp \<Rightarrow> poller_op \<Rightarrow> dapp" where
  "poller_step s (Start r) = startPollingData r s"
| "poller_step s Stop = stopPollingData s"

definition run_poller :: "poller_op list \<Rightarrow> dapp \<Rightarrow> dapp" where
  "run_poller ops s = foldl poller_step s ops"

text \<open>A run in which no start happens while the poller runs; the flag says whether it runs now.\<close>

fun startsWhenStopped :: "bool \<Rightarrow> poller_op list \<Rightarrow> bool" where
  "startsWhenStopped running [] = True"
| "startsWhenStopped running (Start r # ops) = (\<not> running \<and> startsWhenStopped True ops)"
| "startsWhenStopped running (Stop # ops) = startsWhenStopped False ops"

text \<open>The timer the ref holds is the only one alive.\<close>

definition oneTimer :: "dapp \<Rightarrow> bool" where
  "oneTimer s = (timers s = (case pollDataInterval s of None \<Rightarrow> [] | Some t \<Rightarrow> [t]))"

text \<open>Several calls of \<open>connectWallet\<close>, each with the answers it gets.\<close>

definition connects :: "(ethereum \<times> chain_replies) list \<Rightarrow> dapp \<Rightarrow> dapp" where
  "connects ws s = foldl (\<lambda>s' (w, rp). connectWallet w rp s') s ws"

text \<open>A call that gets an account list on the accepted network.\<close>

definition accepted :: "ethereum \<Rightarrow> bool" where
  "accepted w =
     (case enable w of
        Rejected e \<Rightarrow> False
      | Fulfilled accounts \<Rightarrow> networkVersion w = HARDHAT_NETWORK_ID)"

subsection \<open>A session used in the examples\<close>

definition wallet0 :: ethereum where
  "wallet0 = \<lparr> enable = Fulfilled [''0xAA''], networkVersion = ''31337'' \<rparr>"

definition chain0 :: chain_replies where
  "chain0 = \<lparr> r_name = Fulfilled ''Foo'', r_symbol = Fulfilled ''FOO'', r_balanceOf = Fulfilled 100 \<rparr>"

definition connected0 :: dapp where
  "connected0 = connectWallet wallet0 chain0 Dapp"

text \<open>
  A wallet that answers \<open>enable()\<close> with an empty account list, and the contract's
  replies to the reads made then: the read of the balance of \<open>undefined\<close> is rejected.
\<close>

definition walletNoAccount :: ethereum where
  "walletNoAccount = \<lparr> enable = Fulfilled [], networkVersion = ''31337'' \<rparr>"

definition chainNoAccount :: chain_replies where
  "chainNoAccount = \<lparr> r_name = Fulfilled ''Foo'', r_symbol = Fulfilled ''FOO'',
     r_balanceOf = Rejected \<lparr> code = None, message = ''invalid address'' \<rparr> \<rparr>"

text \<open>Connect is clicked twice: the first call gets no account, the second gets \<open>0xAA\<close>.\<close>

definition connectedTwice :: dapp where
  "connectedTwice = connects [(walletNoAccount, chainNoAccount), (wallet0, chain0)] Dapp"

definition rpcError :: js_error where
  "rpcError = \<lparr> code = Some (- 32603), message = ''Internal JSON-RPC error.'' \<rparr>"

definition userRejected :: js_error where
  "userRejected = \<lparr> code = Some 4001, message = ''User denied transaction signature.'' \<rparr>"

section \<open>The poller\<close>

lemma updateBalance_timers:
  "timers (snd (updateBalance r s)) = timers s"
  "pollDataInterval (snd (updateBalance r s)) = pollDataInterval s"
  by (simp_all add: updateBalance_def split: option.split settled.split)

lemma pollDataInterval_stop: "pollDataInterval (stopPollingData s) = None"
  by (simp add: stopPollingData_def)

lemma oneTimer_stop: "oneTimer s \<Longrightarrow> oneTimer (stopPollingData s)"
  by (simp add: oneTimer_def stopPollingData_def clearInterval_def split: option.splits)

lemma pollDataInterval_start: "pollDataInterval (startPollingData r s) = Some (nextTimer s)"
  by (simp add: startPollingData_def setInterval_def updateBalance_timers)

text \<open>\<open>startPollingData\<close> never clears a timer: it adds one to those alive.\<close>

lemma timers_start: "timers (startPollingData r s) = timers s @ [nextTimer s]"
  by (simp add: startPollingData_def setInterval_def updateBalance_timers)

lemma oneTimer_start:
  "oneTimer s \<Longrightarrow> pollDataInterval s = None \<Longrightarrow> oneTimer (startPollingData r s)"
  by (simp add: oneTimer_def pollDataInterval_start timers_start)

lemma oneTimer_run:
  "startsWhenStopped running ops \<Longrightarrow> oneTimer s \<Longrightarrow> running = (pollDataInterval s \<noteq> None)
     \<Longrightarrow> oneTimer (foldl poller_step s ops)"
proof (induction running ops arbitrary: s rule: startsWhenStopped.induct)
  case (1 running)
  then show ?case by simp
next
  case (2 running r ops)
  then show ?case
    by (simp add: oneTimer_start pollDataInterval_start)
next
  case (3 running ops)
  then show ?case
    by (simp add: oneTimer_stop pollDataInterval_stop)
qed

lemma startsWhenStopped_take:
  "startsWhenStopped running ops \<Longrightarrow> startsWhenStopped running (take k ops)"
proof (induction running ops arbitrary: k rule: startsWhenStopped.induct)
  case (1 running)
  then show ?case by simp
next
  case (2 running r ops)
  then show ?case by (cases k) simp_all
next
  case (3 running ops)
  then show ?case by (cases k) simp_all
qed

lemma oneTimer_length: "oneTimer s \<Longrightarrow> length (timers s) \<le> 1"
  by (simp add: oneTimer_def split: option.splits)

text \<open>Stopping a stopped poller changes nothing: \<open>clearInterval(undefined)\<close> is harmless.\<close>

theorem stopPollingData_idempotent:
  "stopPollingData (stopPollingData s) = stopPollingData s"
  by (simp add: stopPollingData_def clearInterval_def)

lemma oneTimer_Dapp: "oneTimer Dapp" "pollDataInterval Dapp = None"
  by (simp_all add: oneTimer_def Dapp_def)

lemmas poller_defs = run_poller_def startPollingData_def stopPollingData_def setInterval_def
  clearInterval_def updateBalance_def Dapp_def

text \<open>
  \<open>startPollingData\<close> does not stop the timer of an earlier start. Two starts in a row
  from the first render leave the timers 1 and 2 alive, and the ref only knows the
  second.
\<close>

lemma start_while_running_leaks_timer:
  "timers (run_poller [Start (Fulfilled 100), Start (Fulfilled 100)] Dapp) = [1, 2]
   \<and> \<not> length (timers (run_poller [Start (Fulfilled 100), Start (Fulfilled 100)] Dapp)) \<le> 1"
  by (simp add: poller_defs)

text \<open>
  Where every start is preceded by a stop, as in the listener of \<open>accountsChanged\<close>, at
  most one interval timer is alive after every prefix of the run.
\<close>

lemma one_timer_when_started_while_stopped:
  "startsWhenStopped False ops \<Longrightarrow> length (timers (run_poller (take k ops) Dapp)) \<le> 1"
  unfolding run_poller_def
  by (rule oneTimer_length, rule oneTimer_run [where running = False])
     (simp_all add: startsWhenStopped_take oneTimer_Dapp)

section \<open>The session of the examples\<close>

lemmas connect_defs = connected0_def connectWallet_def wallet0_def chain0_def Dapp_def
  checkNetwork_def HARDHAT_NETWORK_ID_def initialize_def initializeEthers_def getTokenData_def
  startPollingData_def setInterval_def updateBalance_def ethereum_on_def first_def

text \<open>
  Connecting on network 31337 with the account \<open>0xAA\<close>, the token Foo (FOO) and a
  balance of 100 gives the state the spec's scenario describes, with timer 1 polling.
\<close>

lemma connected0_eq:
  "connected0 = \<lparr> token = Some Contract, pollDataInterval = Some 1, myAddress = Some ''0xAA'',
      tokenData = Val \<lparr> name = ''Foo'', symbol = ''FOO'' \<rparr>, balance = Val 100,
      txBeingSent = Undefined, transactionError = Undefined, networkError = Undefined,
      timers = [1], nextTimer = 2, listeners = [AccountsChanged, NetworkChanged],
      console = [ConsoleLog ''bal''] \<rparr>"
  by (simp add: connect_defs)

lemma connectedTwice_eq:
  "connectedTwice = \<lparr> token = Some Contract, pollDataInterval = Some 2, myAddress = Some ''0xAA'',
      tokenData = Val \<lparr> name = ''Foo'', symbol = ''FOO'' \<rparr>, balance = Val 100,
      txBeingSent = Undefined, transactionError = Undefined, networkError = Undefined,
      timers = [1, 2], nextTimer = 3,
      listeners = [AccountsChanged, NetworkChanged, AccountsChanged, NetworkChanged],
      console = [ConsoleLog ''bal''] \<rparr>"
  by (simp add: connectedTwice_def connects_def walletNoAccount_def chainNoAccount_def
      connect_defs)

section \<open>A second connect\<close>

text \<open>
  C1 at two calls of \<open>connectWallet\<close>: \<open>connectWallet\<close> runs \<open>initialize\<close> and with it
  \<open>startPollingData\<close> without stopping first, where the listener of \<open>accountsChanged\<close>
  stops first. After a first connect that got no account the connect screen is
  still shown and timer 1 polls; the second connect starts timer 2 and overwrites
  the ref. Two timers are alive, and \<open>stopPollingData\<close> can only clear the second:
  timer 1 is leaked.
\<close>

theorem C1_second_connect_leaks_timer:
  "render True (connectWallet walletNoAccount chainNoAccount Dapp) = ConnectWallet
   \<and> timers (connectWallet walletNoAccount chainNoAccount Dapp) = [1]
   \<and> timers connectedTwice = [1, 2]
   \<and> pollDataInterval connectedTwice = Some 2
   \<and> \<not> length (timers connectedTwice) \<le> 1
   \<and> timers (stopPollingData connectedTwice) = [1]"
  by (simp add: connectedTwice_eq stopPollingData_def clearInterval_def)
     (simp add: walletNoAccount_def chainNoAccount_def connect_defs render_def)

section \<open>A failed read of the balance\<close>

lemma pollTick_Rejected: "pollTick (Rejected e) s = s"
  by (simp add: pollTick_def updateBalance_def split: option.split)

text \<open>
  C2, as the spec states it, fails: \<open>updateBalance\<close> has no handler, so a rejected
  read reaches no error cell. In the connected session, after timer 1 fires and the
  read is rejected, \<open>transactionError\<close> and \<open>networkError\<close> are still unset and the
  console has no new line.
\<close>

theorem C2_failed_read_not_surfaced:
  "1 \<in> set (timers connected0)
   \<and> unset (transactionError (intervalFires 1 (Rejected rpcError) connected0))
   \<and> unset (networkError (intervalFires 1 (Rejected rpcError) connected0))
   \<and> console (intervalFires 1 (Rejected rpcError) connected0) = console connected0"
  by (simp add: connected0_eq intervalFires_def pollTick_def updateBalance_def unset_def)

text \<open>
  C2, amended: a poll whose read of the balance fails does not stop the poller and
  changes nothing at all: the timers, the ref of the interval, the balance and both
  error cells stay as they were. The schedule goes on: when the same timer fires
  again and the read succeeds, the balance is updated.
\<close>

theorem C2_failed_read_keeps_polling:
  "intervalFires t (Rejected e) s = s
   \<and> (t \<in> set (timers s) \<and> token s = Some c \<longrightarrow>
        balance (intervalFires t (Fulfilled b) (intervalFires t (Rejected e) s)) = Val b)"
  by (simp add: intervalFires_def pollTick_Rejected)
     (simp add: pollTick_def updateBalance_def)

theorem C2_failed_read_keeps_polling_witness:
  "intervalFires 1 (Rejected rpcError) connected0 = connected0
   \<and> 1 \<in> set (timers connected0) \<and> token connected0 = Some Contract
   \<and> balance (intervalFires 1 (Fulfilled 70) (intervalFires 1 (Rejected rpcError) connected0)) = Val 70"
proof -
  have h: "1 \<in> set (timers connected0) \<and> token connected0 = Some Contract"
    by (simp add: connected0_eq)
  from C2_failed_read_keeps_polling [of 1 rpcError connected0 Contract 70] h
  show ?thesis by blast
qed

section \<open>A change of network\<close>

lemmas event_defs = emit_networkChanged_def listenersFor_def networkChanged_handler_def
  resetState_def stopPollingData_def clearInterval_def

text \<open>
  C3 at the connected session, when the wallet reports network 1: the poller is
  stopped and the five cells are \<open>null\<close>, but \<open>resetState\<close> does not touch the refs.
  \<open>myAddress\<close> still holds \<open>0xAA\<close> and \<open>token\<close> the contract, where the first render
  has neither, so the component shows the loading screen and not the connect
  screen of the first render.
\<close>

theorem C3_network_change_keeps_address:
  "myAddress Dapp = None \<and> token Dapp = None
   \<and> render True Dapp = ConnectWallet
   \<and> myAddress (emit_networkChanged ''1'' connected0) = Some ''0xAA''
   \<and> token (emit_networkChanged ''1'' connected0) = Some Contract
   \<and> render True (emit_networkChanged ''1'' connected0) = Loading
   \<and> timers (emit_networkChanged ''1'' connected0) = []
   \<and> pollDataInterval (emit_networkChanged ''1'' connected0) = None
   \<and> tokenData (emit_networkChanged ''1'' connected0) = Null
   \<and> balance (emit_networkChanged ''1'' connected0) = Null
   \<and> txBeingSent (emit_networkChanged ''1'' connected0) = Null
   \<and> transactionError (emit_networkChanged ''1'' connected0) = Null
   \<and> networkError (emit_networkChanged ''1'' connected0) = Null"
  by (simp add: connected0_eq event_defs render_def unset_def Dapp_def)

section \<open>Transfers\<close>

lemmas transfer_defs = transferTokens_def transferTokens_try_def transferTokens_catch_def
  transferTokens_finally_def dismissTransactionError_def ERROR_CODE_TX_REJECTED_BY_USER_def
  Error_def

lemma txBeingSent_finally: "txBeingSent (transferTokens_finally s) = Null"
  by (simp add: transferTokens_finally_def)

text \<open>
  C4: when \<open>transfer\<close> is rejected with code 4001, \<open>transferTokens\<close> returns silently:
  all it leaves behind is \<open>transactionError = null\<close> and \<open>txBeingSent = null\<close>; nothing is
  logged and no error is stored.
\<close>

theorem C4_user_rejection_is_silent:
  "token s = Some c \<Longrightarrow> r_transfer rp = Rejected e \<Longrightarrow> code e = Some 4001 \<Longrightarrow>
     transferTokens to amount rp s = s\<lparr> transactionError := Null, txBeingSent := Null \<rparr>
     \<and> unset (transactionError (transferTokens to amount rp s))
     \<and> unset (txBeingSent (transferTokens to amount rp s))"
  by (simp add: transfer_defs unset_def)

theorem C4_user_rejection_is_silent_witness:
  "token connected0 = Some Contract \<and> code userRejected = Some 4001
   \<and> transferTokens ''0xBB'' 10
        \<lparr> r_transfer = Rejected userRejected, r_wait = Fulfilled \<lparr> status = 1 \<rparr>,
          r_refresh = Fulfilled 90 \<rparr> connected0
      = connected0\<lparr> transactionError := Null, txBeingSent := Null \<rparr>
   \<and> console (transferTokens ''0xBB'' 10
        \<lparr> r_transfer = Rejected userRejected, r_wait = Fulfilled \<lparr> status = 1 \<rparr>,
          r_refresh = Fulfilled 90 \<rparr> connected0) = [ConsoleLog ''bal'']"
proof -
  have h: "token connected0 = Some Contract" "code userRejected = Some 4001"
    by (simp_all add: connected0_eq userRejected_def)
  from C4_user_rejection_is_silent [OF h(1) _ h(2), of
      "\<lparr> r_transfer = Rejected userRejected, r_wait = Fulfilled \<lparr> status = 1 \<rparr>,
         r_refresh = Fulfilled 90 \<rparr>" "''0xBB''" 10] h
  show ?thesis by (simp add: connected0_eq)
qed

text \<open>
  C5, as the spec states it, fails in its second half: the read of the balance that
  follows a receipt of status 1 stands inside the \<open>try\<close> block, so when that read is
  rejected the \<open>catch\<close> block stores its error as the transaction error.
\<close>

theorem C5_failed_refresh_sets_error:
  "transactionError (transferTokens ''0xBB'' 10
      \<lparr> r_transfer = Fulfilled \<lparr> hash = ''0x01'' \<rparr>, r_wait = Fulfilled \<lparr> status = 1 \<rparr>,
        r_refresh = Rejected rpcError \<rparr> connected0) = Val rpcError"
  by (simp add: connected0_eq transfer_defs updateBalance_def rpcError_def)

text \<open>
  C5, amended: a submitted transfer whose receipt has status 0 stores the error
  \<open>Transaction failed\<close> as the transaction error and clears the pending hash. A
  receipt of status 1 sets no transaction error when the read of the balance that
  follows succeeds. When that read is rejected, its error is the transaction
  error, unless its code is 4001: then it is dropped and no transaction error is set.
\<close>

theorem C5_receipt_status:
  "token s = Some c \<Longrightarrow> r_transfer rp = Fulfilled t \<Longrightarrow> r_wait rp = Fulfilled rc \<Longrightarrow>
     (status rc = 0 \<longrightarrow>
        transactionError (transferTokens to amount rp s) = Val (Error ''Transaction failed'')
        \<and> txBeingSent (transferTokens to amount rp s) = Null)
     \<and> (status rc = 1 \<longrightarrow>
        (\<forall>b. r_refresh rp = Fulfilled b \<longrightarrow>
           transactionError (transferTokens to amount rp s) = Null)
        \<and> (\<forall>e. r_refresh rp = Rejected e \<longrightarrow>
           transactionError (transferTokens to amount rp s)
             = (if code e = Some 4001 then Null else Val e)))"
  by (simp add: transfer_defs updateBalance_def)

theorem C5_receipt_status_witness:
  "token connected0 = Some Contract
   \<and> transactionError (transferTokens ''0xBB'' 10
        \<lparr> r_transfer = Fulfilled \<lparr> hash = ''0x01'' \<rparr>, r_wait = Fulfilled \<lparr> status = 0 \<rparr>,
          r_refresh = Fulfilled 100 \<rparr> connected0) = Val (Error ''Transaction failed'')
   \<and> txBeingSent (transferTokens ''0xBB'' 10
        \<lparr> r_transfer = Fulfilled \<lparr> hash = ''0x01'' \<rparr>, r_wait = Fulfilled \<lparr> status = 0 \<rparr>,
          r_refresh = Fulfilled 100 \<rparr> connected0) = Null
   \<and> transactionError (transferTokens ''0xBB'' 10
        \<lparr> r_transfer = Fulfilled \<lparr> hash = ''0x01'' \<rparr>, r_wait = Fulfilled \<lparr> status = 1 \<rparr>,
          r_refresh = Fulfilled 90 \<rparr> connected0) = Null
   \<and> transactionError (transferTokens ''0xBB'' 10
        \<lparr> r_transfer = Fulfilled \<lparr> hash = ''0x01'' \<rparr>, r_wait = Fulfilled \<lparr> status = 1 \<rparr>,
          r_refresh = Rejected userRejected \<rparr> connected0) = Null"
proof -
  have h: "token connected0 = Some Contract"
    by (simp add: connected0_eq)
  have u: "code userRejected = Some 4001"
    by (simp add: userRejected_def)
  from C5_receipt_status [OF h, of
      "\<lparr> r_transfer = Fulfilled \<lparr> hash = ''0x01'' \<rparr>, r_wait = Fulfilled \<lparr> status = 1 \<rparr>,
         r_refresh = Rejected userRejected \<rparr>" "\<lparr> hash = ''0x01'' \<rparr>" "\<lparr> status = 1 \<rparr>" "''0xBB''" 10] u
    C5_receipt_status [OF h, of
      "\<lparr> r_transfer = Fulfilled \<lparr> hash = ''0x01'' \<rparr>, r_wait = Fulfilled \<lparr> status = 0 \<rparr>,
         r_refresh = Fulfilled 100 \<rparr>" "\<lparr> hash = ''0x01'' \<rparr>" "\<lparr> status = 0 \<rparr>" "''0xBB''" 10]
    C5_receipt_status [OF h, of
      "\<lparr> r_transfer = Fulfilled \<lparr> hash = ''0x01'' \<rparr>, r_wait = Fulfilled \<lparr> status = 1 \<rparr>,
         r_refresh = Fulfilled 90 \<rparr>" "\<lparr> hash = ''0x01'' \<rparr>" "\<lparr> status = 1 \<rparr>" "''0xBB''" 10] h
  show ?thesis by simp
qed

text \<open>
  C6: on every way out of \<open>transferTokens\<close> (success, failed submission, failed
  confirmation, rejection by the user, even a missing contract) the pending hash
  \<open>txBeingSent\<close> is \<open>null\<close> when the call settles.
\<close>

theorem C6_pending_hash_cleared:
  "txBeingSent (transferTokens to amount rp s) = Null"
  by (simp add: transferTokens_def txBeingSent_finally split: prod.split option.split)

theorem C6_pending_hash_cleared_witness:
  "txBeingSent (transferTokens ''0xBB'' 10
     \<lparr> r_transfer = Fulfilled \<lparr> hash = ''0x01'' \<rparr>, r_wait = Rejected rpcError,
       r_refresh = Fulfilled 90 \<rparr> connected0) = Null"
  by (rule C6_pending_hash_cleared)

text \<open>
  C8: after a receipt of status 1 the \<open>try\<close> block ends with the call of
  \<open>updateBalance\<close>, made while the hash is still pending, whatever timers are alive.
  When that read returns \<open>b\<close>, the call settles with balance \<open>b\<close>, no pending hash
  and no transaction error, and the timers untouched. (What \<open>b\<close> is, the contract
  decides: 90 after a transfer of 10 from 100.)
\<close>

theorem C8_confirmed_transfer_refreshes_balance:
  "token s = Some c \<Longrightarrow> r_transfer rp = Fulfilled t \<Longrightarrow> r_wait rp = Fulfilled rc \<Longrightarrow>
   status rc = 1 \<Longrightarrow>
     transferTokens_try to amount rp s =
       updateBalance (r_refresh rp) (s\<lparr> transactionError := Null, txBeingSent := Val (hash t) \<rparr>)
     \<and> (\<forall>b. r_refresh rp = Fulfilled b \<longrightarrow>
           balance (transferTokens to amount rp s) = Val b
           \<and> txBeingSent (transferTokens to amount rp s) = Null
           \<and> transactionError (transferTokens to amount rp s) = Null
           \<and> timers (transferTokens to amount rp s) = timers s)"
  by (simp add: transfer_defs updateBalance_def Let_def)

theorem C8_confirmed_transfer_refreshes_balance_witness:
  "token connected0 = Some Contract \<and> balance connected0 = Val 100
   \<and> balance (transferTokens ''0xBB'' 10
        \<lparr> r_transfer = Fulfilled \<lparr> hash = ''0x01'' \<rparr>, r_wait = Fulfilled \<lparr> status = 1 \<rparr>,
          r_refresh = Fulfilled 90 \<rparr> connected0) = Val 90
   \<and> txBeingSent (transferTokens ''0xBB'' 10
        \<lparr> r_transfer = Fulfilled \<lparr> hash = ''0x01'' \<rparr>, r_wait = Fulfilled \<lparr> status = 1 \<rparr>,
          r_refresh = Fulfilled 90 \<rparr> connected0) = Null
   \<and> transactionError (transferTokens ''0xBB'' 10
        \<lparr> r_transfer = Fulfilled \<lparr> hash = ''0x01'' \<rparr>, r_wait = Fulfilled \<lparr> status = 1 \<rparr>,
          r_refresh = Fulfilled 90 \<rparr> connected0) = Null"
proof -
  have h: "token connected0 = Some Contract" "balance connected0 = Val 100"
    by (simp_all add: connected0_eq)
  from C8_confirmed_transfer_refreshes_balance [OF h(1), of
      "\<lparr> r_transfer = Fulfilled \<lparr> hash = ''0x01'' \<rparr>, r_wait = Fulfilled \<lparr> status = 1 \<rparr>,
         r_refresh = Fulfilled 90 \<rparr>" "\<lparr> hash = ''0x01'' \<rparr>" "\<lparr> status = 1 \<rparr>" "''0xBB''" 10] h
  show ?thesis by simp
qed

section \<open>Connecting on the wrong network\<close>

text \<open>
  C7: when \<open>enable()\<close> has answered and the network id of the wallet is not 31337,
  \<open>connectWallet\<close> sets the network error message and does nothing else: no
  contract, no token data, no balance, no address, no timer and no listener.
\<close>

theorem C7_wrong_network_only_sets_message:
  "enable w = Fulfilled accounts \<Longrightarrow> networkVersion w \<noteq> HARDHAT_NETWORK_ID \<Longrightarrow>
     connectWallet w rp s = s\<lparr> networkError := Val ''Please connect Metamask to Localhost:8545'' \<rparr>
     \<and> token (connectWallet w rp s) = token s
     \<and> tokenData (connectWallet w rp s) = tokenData s
     \<and> balance (connectWallet w rp s) = balance s
     \<and> myAddress (connectWallet w rp s) = myAddress s
     \<and> pollDataInterval (connectWallet w rp s) = pollDataInterval s
     \<and> timers (connectWallet w rp s) = timers s
     \<and> listeners (connectWallet w rp s) = listeners s"
  by (simp add: connectWallet_def checkNetwork_def)

theorem C7_wrong_network_only_sets_message_witness:
  "networkVersion \<lparr> enable = Fulfilled [''0xAA''], networkVersion = ''1'' \<rparr> \<noteq> HARDHAT_NETWORK_ID
   \<and> connectWallet \<lparr> enable = Fulfilled [''0xAA''], networkVersion = ''1'' \<rparr> chain0 Dapp
      = Dapp\<lparr> networkError := Val ''Please connect Metamask to Localhost:8545'' \<rparr>
   \<and> token (connectWallet \<lparr> enable = Fulfilled [''0xAA''], networkVersion = ''1'' \<rparr> chain0 Dapp) = None
   \<and> timers (connectWallet \<lparr> enable = Fulfilled [''0xAA''], networkVersion = ''1'' \<rparr> chain0 Dapp) = []"
proof -
  have h: "enable \<lparr> enable = Fulfilled [''0xAA''], networkVersion = ''1'' \<rparr> = Fulfilled [''0xAA'']"
    "networkVersion \<lparr> enable = Fulfilled [''0xAA''], networkVersion = ''1'' \<rparr> \<noteq> HARDHAT_NETWORK_ID"
    by (simp_all add: HARDHAT_NETWORK_ID_def)
  from C7_wrong_network_only_sets_message [OF h, of chain0 Dapp] h(2)
  show ?thesis by (simp add: Dapp_def)
qed

section \<open>Unmounting\<close>

text \<open>
  The cleanup of the effect changes nothing but the poller: the refs of the contract
  and of the address, the five cells, the listeners and the console are as before;
  the ref of the interval is \<open>undefined\<close> and the timer it held is cleared.
\<close>

theorem unmount_frame:
  "token (unmount s) = token s \<and> myAddress (unmount s) = myAddress s
   \<and> tokenData (unmount s) = tokenData s \<and> balance (unmount s) = balance s
   \<and> txBeingSent (unmount s) = txBeingSent s
   \<and> transactionError (unmount s) = transactionError s
   \<and> networkError (unmount s) = networkError s
   \<and> listeners (unmount s) = listeners s \<and> console (unmount s) = console s
   \<and> pollDataInterval (unmount s) = None
   \<and> timers (unmount s)
       = (case pollDataInterval s of None \<Rightarrow> timers s | Some t \<Rightarrow> removeAll t (timers s))"
  by (simp add: unmount_def stopPollingData_def clearInterval_def split: option.split)

text \<open>
  C9 after the two connects: unmounting clears timer 2, which the ref holds, and
  leaves every cell as it was, but timer 1, leaked by the second connect, stays
  alive. The poller is not stopped: when timer 1 fires after the unmount, the
  balance read is written to the cell.
\<close>

theorem C9_unmount_leaves_leaked_timer:
  "timers (unmount connectedTwice) = [1]
   \<and> pollDataInterval (unmount connectedTwice) = None
   \<and> balance (unmount connectedTwice) = Val 100
   \<and> balance (intervalFires 1 (Fulfilled 70) (unmount connectedTwice)) = Val 70"
  by (simp add: connectedTwice_eq unmount_def stopPollingData_def clearInterval_def
      intervalFires_def pollTick_def updateBalance_def)

section \<open>Listeners pile up\<close>

lemma listeners_updateBalance: "listeners (snd (updateBalance r s)) = listeners s"
  by (simp add: updateBalance_def split: option.split settled.split)

lemma listeners_initialize: "listeners (initialize a rp s) = listeners s"
  by (simp add: initialize_def startPollingData_def setInterval_def listeners_updateBalance
      getTokenData_def initializeEthers_def split: settled.split)

lemma listeners_connectWallet:
  "accepted w \<Longrightarrow>
     listeners (connectWallet w rp s) = listeners s @ [AccountsChanged, NetworkChanged]"
  by (simp add: accepted_def connectWallet_def checkNetwork_def ethereum_on_def
      listeners_initialize split: settled.splits)

lemma listeners_connects:
  "list_all (\<lambda>p. accepted (fst p)) ws \<Longrightarrow>
     listeners (connects ws s)
       = listeners s @ concat (map (\<lambda>p. [AccountsChanged, NetworkChanged]) ws)"
  unfolding connects_def
proof (induction ws arbitrary: s)
  case Nil
  then show ?case by simp
next
  case (Cons p ws)
  then show ?case
    by (cases p) (simp add: listeners_connectWallet)
qed

lemma filter_registered:
  "filter (\<lambda>l. l = AccountsChanged) (concat (map (\<lambda>p. [AccountsChanged, NetworkChanged]) ws))
     = replicate (length ws) AccountsChanged"
  "filter (\<lambda>l. l = NetworkChanged) (concat (map (\<lambda>p. [AccountsChanged, NetworkChanged]) ws))
     = replicate (length ws) NetworkChanged"
  by (induction ws) simp_all

lemma foldl_every_listener: "foldl (\<lambda>s' l. f s') s ls = (f ^^ length ls) s"
  by (induction ls arbitrary: s) (simp_all add: funpow_swap1)

text \<open>
  C10: every call of \<open>connectWallet\<close> that gets an account list on network 31337
  appends one listener of \<open>accountsChanged\<close> and one of \<open>networkChanged\<close> and removes
  none. After \<open>n\<close> such calls from the first render each event has \<open>n\<close> listeners, and
  emitting it runs the handler \<open>n\<close> times.
\<close>

theorem C10_listeners_accumulate:
  "list_all (\<lambda>p. accepted (fst p)) ws \<Longrightarrow>
     listeners (connects ws s)
       = listeners s @ concat (map (\<lambda>p. [AccountsChanged, NetworkChanged]) ws)
     \<and> length (listenersFor AccountsChanged (connects ws Dapp)) = length ws
     \<and> length (listenersFor NetworkChanged (connects ws Dapp)) = length ws
     \<and> emit_accountsChanged accounts rp (connects ws Dapp)
         = (accountsChanged_handler accounts rp ^^ length ws) (connects ws Dapp)
     \<and> emit_networkChanged e (connects ws Dapp)
         = (networkChanged_handler e ^^ length ws) (connects ws Dapp)"
proof -
  assume ok: "list_all (\<lambda>p. accepted (fst p)) ws"
  have a: "listenersFor AccountsChanged (connects ws Dapp) = replicate (length ws) AccountsChanged"
    by (simp add: listenersFor_def listeners_connects [OF ok] filter_registered Dapp_def)
  have n: "listenersFor NetworkChanged (connects ws Dapp) = replicate (length ws) NetworkChanged"
    by (simp add: listenersFor_def listeners_connects [OF ok] filter_registered Dapp_def)
  show ?thesis
    by (simp add: listeners_connects [OF ok] emit_accountsChanged_def emit_networkChanged_def
        foldl_every_listener a n)
qed

theorem C10_listeners_accumulate_witness:
  "list_all (\<lambda>p. accepted (fst p)) [(wallet0, chain0), (wallet0, chain0)]
   \<and> listeners (connects [(wallet0, chain0), (wallet0, chain0)] Dapp)
       = [AccountsChanged, NetworkChanged, AccountsChanged, NetworkChanged]
   \<and> length (listenersFor AccountsChanged (connects [(wallet0, chain0), (wallet0, chain0)] Dapp)) = 2
   \<and> length (listenersFor NetworkChanged (connects [(wallet0, chain0), (wallet0, chain0)] Dapp)) = 2
   \<and> emit_networkChanged ''1'' (connects [(wallet0, chain0), (wallet0, chain0)] Dapp)
       = (networkChanged_handler ''1'' ^^ 2) (connects [(wallet0, chain0), (wallet0, chain0)] Dapp)"
proof -
  have h: "list_all (\<lambda>p. accepted (fst p)) [(wallet0, chain0), (wallet0, chain0)]"
    by (simp add: accepted_def wallet0_def HARDHAT_NETWORK_ID_def)
  have len: "length [(wallet0, chain0), (wallet0, chain0)] = 2"
    by simp
  from C10_listeners_accumulate [OF h, of Dapp "[]" chain0 "''1''", unfolded len] h
  show ?thesis by (simp add: Dapp_def)
qed

end
